theory Spec2Isabelle
  imports Main "HOL-Library.Word"
begin

section \<open>A blocking TCP client: the POSIX build of \<^verbatim>\<open>TcpClient\<close>\<close>

text \<open>
  The embedding follows \<^verbatim>\<open>src/tcp_client.cpp\<close> and \<^verbatim>\<open>src/tcp_client.h\<close> as
  the preprocessor leaves them when \<^verbatim>\<open>_WIN32\<close> is not defined: \<^verbatim>\<open>SocketHandle\<close> is
  \<^verbatim>\<open>int\<close>, the sentinel is \<^verbatim>\<open>-1\<close>, \<^verbatim>\<open>initialize_platform\<close> has an empty body and the
  error code is \<^verbatim>\<open>errno\<close>. The data model is LP64: \<^verbatim>\<open>int\<close> has 32 bits, \<^verbatim>\<open>size_t\<close> and
  \<^verbatim>\<open>ssize_t\<close> have 64.

  The operating system is not part of the program. It is a parameter: a record of
  functions that answer each system call from the history of the calls made so far.
  The history (the \<open>world\<close>) is threaded through every operation, so that a claim such
  as ``performs no system call'' is a statement about the world not growing. An
  exception is the \<open>Inl\<close> branch of a result; the object and the world at the moment of
  the throw are returned with it.

  One request for storage has a size that the caller chooses: the buffer of \<^verbatim>\<open>receive\<close>.
  Whether \<^verbatim>\<open>std::string\<close> accepts that size, and whether the allocator grants it, is
  asked of the platform as well. The small strings built elsewhere (the decimal port,
  the exception messages) are taken to be always granted.
\<close>

subsection \<open>Machine types\<close>

type_synonym c_int = "32 word"
type_synonym size_t = "64 word"
type_synonym ssize_t = "64 word"
type_synonym uint16_t = "16 word"
type_synonym SocketHandle = c_int

definition INT_MAX :: c_int where
  "INT_MAX = 0x7FFFFFFF"

text \<open>Constants of the system headers (their Linux values); only passed on as hints.\<close>

definition AF_UNSPEC :: c_int where
  "AF_UNSPEC = 0"

definition SOCK_STREAM :: c_int where
  "SOCK_STREAM = 1"

definition IPPROTO_TCP :: c_int where
  "IPPROTO_TCP = 6"

subsection \<open>Exceptions\<close>

text \<open>
  The three exception classes the code throws, with their messages. A message that ends
  in a text of the C library keeps the call that produces the text. The last two are
  thrown by \<^verbatim>\<open>std::string::resize\<close>, with a message of the library's own.
\<close>

datatype detail =
    Text string
  | strerror c_int
  | gai_strerror c_int

datatype error =
    invalid_argument string
  | logic_error string
  | runtime_error string detail
  | length_error
  | bad_alloc

subsection \<open>System calls and the platform\<close>

record addrinfo =
  ai_family :: c_int
  ai_socktype :: c_int
  ai_protocol :: c_int
  ai_addr :: string
  ai_addrlen :: c_int

text \<open>
  One entry of the history: the call, its arguments and what the platform answered.
  Besides the system calls the platform record holds \<^verbatim>\<open>std::string::max_size()\<close>, a
  constant of the C++ library, and the allocator's answer to a request for a number of
  characters (not a system call of the client, so not an entry of the history).
\<close>

datatype event =
    Ev_getaddrinfo string string addrinfo c_int "addrinfo list"
  | Ev_freeaddrinfo "addrinfo list"
  | Ev_socket c_int c_int c_int SocketHandle
  | Ev_connect SocketHandle string c_int c_int
  | Ev_send SocketHandle string size_t ssize_t
  | Ev_recv SocketHandle size_t ssize_t string
  | Ev_close SocketHandle

type_synonym world = "event list"

record platform =
  os_getaddrinfo :: "world \<Rightarrow> string \<Rightarrow> string \<Rightarrow> addrinfo \<Rightarrow> c_int \<times> addrinfo list"
  os_socket :: "world \<Rightarrow> c_int \<Rightarrow> c_int \<Rightarrow> c_int \<Rightarrow> SocketHandle"
  os_connect :: "world \<Rightarrow> SocketHandle \<Rightarrow> string \<Rightarrow> c_int \<Rightarrow> c_int"
  os_send :: "world \<Rightarrow> SocketHandle \<Rightarrow> string \<Rightarrow> size_t \<Rightarrow> ssize_t"
  os_recv :: "world \<Rightarrow> SocketHandle \<Rightarrow> size_t \<Rightarrow> ssize_t \<times> string"
  os_errno :: "world \<Rightarrow> c_int"
  string_max_size :: size_t
  storage_granted :: "world \<Rightarrow> size_t \<Rightarrow> bool"

subsection \<open>The object\<close>

text \<open>
  The members \<^verbatim>\<open>socket_\<close> and \<^verbatim>\<open>connected_\<close>; a name cannot end in an underscore
  here, so they carry an \<open>m\<close> at the end.
\<close>

record TcpClient =
  socket_m :: SocketHandle
  connected_m :: bool

definition invalid_socket :: SocketHandle where
  "invalid_socket = - 1"

definition initialize_platform :: "world \<Rightarrow> world" where
  "initialize_platform w = w"

definition last_socket_error :: "platform \<Rightarrow> world \<Rightarrow> c_int" where
  "last_socket_error P w = os_errno P w"

definition format_network_error :: "c_int \<Rightarrow> detail" where
  "format_network_error code = strerror code"

definition close_socket :: "SocketHandle \<Rightarrow> world \<Rightarrow> world" where
  "close_socket handle w =
     (if handle = invalid_socket then w else w @ [Ev_close handle])"

definition reset_socket :: "TcpClient \<Rightarrow> TcpClient" where
  "reset_socket c = c\<lparr>socket_m := invalid_socket, connected_m := False\<rparr>"

definition ensure_connected :: "TcpClient \<Rightarrow> error + unit" where
  "ensure_connected c =
     (if \<not> connected_m c \<or> socket_m c = invalid_socket
      then Inl (logic_error ''socket is not connected'')
      else Inr ())"

definition is_connected :: "TcpClient \<Rightarrow> bool" where
  "is_connected c = connected_m c"

definition close :: "TcpClient \<Rightarrow> world \<Rightarrow> TcpClient \<times> world" where
  "close c w =
     (let w1 = (if socket_m c \<noteq> invalid_socket then close_socket (socket_m c) w else w)
      in (reset_socket c, w1))"

text \<open>The default constructor.\<close>

definition TcpClient_new :: "world \<Rightarrow> TcpClient \<times> world" where
  "TcpClient_new w =
     (\<lparr>socket_m = invalid_socket, connected_m = False\<rparr>, initialize_platform w)"

text \<open>The destructor.\<close>

definition TcpClient_delete :: "TcpClient \<Rightarrow> world \<Rightarrow> TcpClient \<times> world" where
  "TcpClient_delete c w = close c w"

subsection \<open>connect\<close>

text \<open>\<^verbatim>\<open>std::to_string\<close> on an unsigned value: its decimal digits.\<close>

definition digit_char :: "nat \<Rightarrow> char" where
  "digit_char d = char_of (48 + d)"

function to_string :: "nat \<Rightarrow> string" where
  "to_string n =
     (if n < 10 then [digit_char n] else to_string (n div 10) @ [digit_char (n mod 10)])"
  by pat_completeness auto
termination
  by (relation "measure (\<lambda>n. n)") auto

declare to_string.simps [simp del]

definition hints :: addrinfo where
  "hints = \<lparr>ai_family = AF_UNSPEC, ai_socktype = SOCK_STREAM, ai_protocol = IPPROTO_TCP,
            ai_addr = [], ai_addrlen = 0\<rparr>"

text \<open>
  The \<^verbatim>\<open>for\<close> loop over the linked list of results. The list \<^verbatim>\<open>ptr, ptr->ai_next, ...\<close>
  is a HOL list; \<open>handle\<close> is the loop's variable of that name, returned at the exit.
\<close>

fun connect_loop ::
  "platform \<Rightarrow> addrinfo list \<Rightarrow> SocketHandle \<Rightarrow> world \<Rightarrow> SocketHandle \<times> world" where
  "connect_loop P [] handle w = (handle, w)"
| "connect_loop P (ptr # rest) handle0 w =
     (let handle = os_socket P w (ai_family ptr) (ai_socktype ptr) (ai_protocol ptr);
          w1 = w @ [Ev_socket (ai_family ptr) (ai_socktype ptr) (ai_protocol ptr) handle]
      in if handle = invalid_socket then connect_loop P rest handle w1
         else
           let connect_result = os_connect P w1 handle (ai_addr ptr) (ai_addrlen ptr);
               w2 = w1 @ [Ev_connect handle (ai_addr ptr) (ai_addrlen ptr) connect_result]
           in if connect_result = 0 then (handle, w2)
              else connect_loop P rest invalid_socket (close_socket handle w2))"

definition connect ::
  "platform \<Rightarrow> string \<Rightarrow> uint16_t \<Rightarrow> TcpClient \<Rightarrow> world \<Rightarrow> (error + unit) \<times> TcpClient \<times> world" where
  "connect P host port c w =
     (if host = [] then (Inl (invalid_argument ''host must not be empty''), c, w)
      else
        let (c1, w1) = close c w;
            w2 = initialize_platform w1;
            service = to_string (unat port);
            (rc, results) = os_getaddrinfo P w2 host service hints;
            w3 = w2 @ [Ev_getaddrinfo host service hints rc results]
        in if rc \<noteq> 0 \<or> results = []
           then (Inl (runtime_error ''getaddrinfo failed: ''
                        (if results = [] then Text ''no addresses resolved''
                         else gai_strerror rc)), c1, w3)
           else
             let (handle, w4) = connect_loop P results invalid_socket w3;
                 w5 = w4 @ [Ev_freeaddrinfo results]
             in if handle = invalid_socket
                then (Inl (runtime_error ''connect failed: ''
                             (format_network_error (last_socket_error P w5))), c1, w5)
                else (Inr (), c1\<lparr>socket_m := handle, connected_m := True\<rparr>, w5))"

subsection \<open>send\<close>

text \<open>
  The \<^verbatim>\<open>while\<close> loop of \<^verbatim>\<open>send\<close>. \<open>bytes\<close> is the memory behind the pointer; each call
  hands the platform the \<open>chunk\<close> bytes from offset \<open>total_sent\<close>. The platform's
  \<^verbatim>\<open>ssize_t\<close> answer is narrowed to the \<^verbatim>\<open>int\<close> variable \<open>sent\<close>, and \<open>sent\<close> is
  widened to \<^verbatim>\<open>size_t\<close> when added (\<open>len\<close> is the parameter \<^verbatim>\<open>length\<close>).
  Nothing in the code bounds the number of rounds, so the loop is a partial function:
  \<open>None\<close> is a loop that never ends.
\<close>

partial_function (option) send_loop ::
  "platform \<Rightarrow> SocketHandle \<Rightarrow> string \<Rightarrow> size_t \<Rightarrow> size_t \<Rightarrow> world
     \<Rightarrow> ((error + size_t) \<times> world) option" where
  "send_loop P s bytes len total_sent w =
     (if total_sent < len then
        let remaining = len - total_sent;
            chunk = (if remaining > ucast INT_MAX then INT_MAX else ucast remaining);
            passed = take (unat chunk) (drop (unat total_sent) bytes);
            answer = os_send P w s passed (scast chunk);
            sent = (ucast answer :: c_int);
            w1 = w @ [Ev_send s passed (scast chunk) answer]
        in if sent \<le>s 0
           then Some (Inl (runtime_error ''send failed: ''
                             (format_network_error (last_socket_error P w1))), w1)
           else send_loop P s bytes len (total_sent + scast sent) w1
      else Some (Inr total_sent, w))"

declare send_loop.simps [code]

text \<open>\<^verbatim>\<open>send(const void*, std::size_t)\<close>; \<open>None\<close> for \<open>data\<close> is the null pointer.\<close>

definition send ::
  "platform \<Rightarrow> string option \<Rightarrow> size_t \<Rightarrow> TcpClient \<Rightarrow> world
     \<Rightarrow> ((error + size_t) \<times> TcpClient \<times> world) option" where
  "send P data len c w =
     (case ensure_connected c of
        Inl e \<Rightarrow> Some (Inl e, c, w)
      | Inr _ \<Rightarrow>
          if data = None \<and> len > 0
          then Some (Inl (invalid_argument ''data pointer must not be null when length > 0''), c, w)
          else
            (case send_loop P (socket_m c) (case data of None \<Rightarrow> [] | Some bytes \<Rightarrow> bytes)
                    len 0 w of
               None \<Rightarrow> None
             | Some (r, w1) \<Rightarrow> Some (r, c, w1)))"

text \<open>\<^verbatim>\<open>send(const std::string&)\<close>.\<close>

definition send_string ::
  "platform \<Rightarrow> string \<Rightarrow> TcpClient \<Rightarrow> world \<Rightarrow> ((error + size_t) \<times> TcpClient \<times> world) option" where
  "send_string P data c w =
     (if data = [] then Some (Inr 0, c, w)
      else send P (Some data) (of_nat (List.length data)) c w)"

subsection \<open>receive\<close>

text \<open>\<^verbatim>\<open>std::string::resize\<close>: cut, or fill up with zero characters.\<close>

definition resize :: "nat \<Rightarrow> string \<Rightarrow> string" where
  "resize n s = take n s @ replicate (n - List.length s) (CHR 0x00)"

text \<open>
  The call \<^verbatim>\<open>s.resize(n)\<close> with what it can throw: a string that is cut keeps its
  storage and cannot fail; one that grows beyond \<^verbatim>\<open>max_size()\<close> throws
  \<^verbatim>\<open>std::length_error\<close>, and one for which the allocator has no storage throws
  \<^verbatim>\<open>std::bad_alloc\<close>.
\<close>

definition string_resize :: "platform \<Rightarrow> world \<Rightarrow> size_t \<Rightarrow> string \<Rightarrow> error + string" where
  "string_resize P w n s =
     (if unat n \<le> List.length s then Inr (resize (unat n) s)
      else if n > string_max_size P then Inl length_error
      else if \<not> storage_granted P w n then Inl bad_alloc
      else Inr (resize (unat n) s))"

text \<open>What the buffer holds after the platform has written \<open>written\<close> to its start.\<close>

definition written_into :: "string \<Rightarrow> string \<Rightarrow> string" where
  "written_into buffer written =
     take (List.length buffer) written @ drop (List.length written) buffer"

definition receive ::
  "platform \<Rightarrow> size_t \<Rightarrow> TcpClient \<Rightarrow> world \<Rightarrow> (error + string) \<times> TcpClient \<times> world" where
  "receive P max_bytes c w =
     (case ensure_connected c of
        Inl e \<Rightarrow> (Inl e, c, w)
      | Inr _ \<Rightarrow>
          if max_bytes = 0 then (Inr [], c, w)
          else
            (case string_resize P w max_bytes [] of
               Inl e \<Rightarrow> (Inl e, c, w)
             | Inr buffer0 \<Rightarrow>
                 let (received, written) = os_recv P w (socket_m c) max_bytes;
                     buffer = written_into buffer0 written;
                     w1 = w @ [Ev_recv (socket_m c) max_bytes received written]
                 in if 0 <s received then
                      (case string_resize P w1 received buffer of
                         Inl e \<Rightarrow> (Inl e, c, w1)
                       | Inr kept \<Rightarrow> (Inr kept, c, w1))
                    else if received = 0 then (let (c1, w2) = close c w1 in (Inr [], c1, w2))
                    else (Inl (runtime_error ''receive failed: ''
                                 (format_network_error (last_socket_error P w1))), c, w1)))"

subsection \<open>Moves\<close>

text \<open>
  Two objects are involved, and move assignment asks whether they are the same object.
  Objects therefore live in a store, at addresses.
\<close>

type_synonym addr = nat
type_synonym store = "addr \<Rightarrow> TcpClient"

text \<open>The move constructor builds the object at \<open>this\<close> from the one at \<open>other\<close>.\<close>

definition move_construct :: "addr \<Rightarrow> addr \<Rightarrow> store \<Rightarrow> store" where
  "move_construct this other st =
     (let st1 = st(this := \<lparr>socket_m = socket_m (st other), connected_m = connected_m (st other)\<rparr>)
      in st1(other := reset_socket (st1 other)))"

definition move_assign :: "addr \<Rightarrow> addr \<Rightarrow> store \<Rightarrow> world \<Rightarrow> store \<times> world" where
  "move_assign this other st w =
     (if this \<noteq> other then
        let (c1, w1) = close (st this) w;
            st1 = st(this := c1);
            st2 = st1(this := (st1 this)\<lparr>socket_m := socket_m (st1 other)\<rparr>);
            st3 = st2(this := (st2 this)\<lparr>connected_m := connected_m (st2 other)\<rparr>);
            st4 = st3(other := reset_socket (st3 other))
        in (st4, w1)
      else (st, w))"

text \<open>A member function called on the object at an address.\<close>

definition close_at :: "addr \<Rightarrow> store \<Rightarrow> world \<Rightarrow> store \<times> world" where
  "close_at a st w = (let (c1, w1) = close (st a) w in (st(a := c1), w1))"

subsection \<open>Notions the properties are stated with\<close>

text \<open>
  What POSIX promises of \<^verbatim>\<open>send\<close>: the answer is \<^verbatim>\<open>-1\<close>, or the number of bytes taken,
  which is at most the number offered.
\<close>

definition send_contract :: "platform \<Rightarrow> bool" where
  "send_contract P \<longleftrightarrow> (\<forall>w s d n. os_send P w s d n = - 1 \<or> os_send P w s d n \<le> n)"

text \<open>The state invariant of the object: the flag says whether a handle is held.\<close>

definition consistent :: "TcpClient \<Rightarrow> bool" where
  "consistent c \<longleftrightarrow> (connected_m c \<longleftrightarrow> socket_m c \<noteq> invalid_socket)"

text \<open>
  The connection attempt policy, in the words of the specification, as a check of the
  system calls \<open>t\<close> made for the candidates and of the handle \<open>adopted\<close> at the end
  (the sentinel when none is): the candidates are taken in order; each one gets a socket
  of its own family, type and protocol, and then a connect to its own address; a connect
  answered \<open>0\<close> ends the attempts at once, with that socket adopted; a candidate that fails
  has its socket closed before the next one starts. A candidate whose socket could not be
  created holds the sentinel, for which closing is no system call.
\<close>

fun follows_policy :: "addrinfo list \<Rightarrow> event list \<Rightarrow> SocketHandle \<Rightarrow> bool" where
  "follows_policy [] t adopted = (t = [] \<and> adopted = invalid_socket)"
| "follows_policy (cand # rest) (Ev_socket f ty pr s # t) adopted =
     (f = ai_family cand \<and> ty = ai_socktype cand \<and> pr = ai_protocol cand \<and>
      (if s = invalid_socket then follows_policy rest t adopted
       else
         (case t of
            Ev_connect s1 a l r # t1 \<Rightarrow>
              s1 = s \<and> a = ai_addr cand \<and> l = ai_addrlen cand \<and>
              (if r = 0 then t1 = [] \<and> adopted = s
               else
                 (case t1 of
                    Ev_close s2 # t2 \<Rightarrow> s2 = s \<and> follows_policy rest t2 adopted
                  | _ \<Rightarrow> False))
          | _ \<Rightarrow> False)))"
| "follows_policy (cand # rest) _ adopted = False"

text \<open>
  Two readings of a history: how many sockets were asked for, and whether a connect was
  answered with success.
\<close>

fun socket_calls :: "event list \<Rightarrow> nat" where
  "socket_calls [] = 0"
| "socket_calls (Ev_socket f ty pr s # t) = Suc (socket_calls t)"
| "socket_calls (e # t) = socket_calls t"

fun accepted :: "event \<Rightarrow> bool" where
  "accepted (Ev_connect s a l r) = (r = 0)"
| "accepted e = False"

text \<open>
  A stretch \<open>t\<close> of history that starts after \<open>w\<close> is genuine when every socket and
  connect entry in it carries the answer the platform gives at that point.
\<close>

fun genuine :: "platform \<Rightarrow> world \<Rightarrow> event list \<Rightarrow> bool" where
  "genuine P w [] = True"
| "genuine P w (Ev_socket f ty pr s # t) =
     (s = os_socket P w f ty pr \<and> genuine P (w @ [Ev_socket f ty pr s]) t)"
| "genuine P w (Ev_connect s a l r # t) =
     (r = os_connect P w s a l \<and> genuine P (w @ [Ev_connect s a l r]) t)"
| "genuine P w (e # t) = genuine P (w @ [e]) t"

subsection \<open>A scripted platform for worked examples\<close>

definition loopback6 :: addrinfo where
  "loopback6 = \<lparr>ai_family = 10, ai_socktype = 1, ai_protocol = 6,
                ai_addr = ''[::1]:7'', ai_addrlen = 28\<rparr>"

definition loopback4 :: addrinfo where
  "loopback4 = \<lparr>ai_family = 2, ai_socktype = 1, ai_protocol = 6,
                ai_addr = ''127.0.0.1:7'', ai_addrlen = 16\<rparr>"

text \<open>
  \<^verbatim>\<open>localhost\<close> resolves to an IPv6 and an IPv4 address, no other name resolves; the IPv6
  socket is handle 4 and is refused, the IPv4 socket is handle 5 and is accepted; a send
  takes at most two bytes; the peer has closed, so a read gives zero bytes; a string
  may have up to \<open>2\<^sup>6\<^sup>2 - 1\<close> characters, and the allocator grants up to a mebibyte.
\<close>

definition scripted_platform :: platform where
  "scripted_platform =
     \<lparr>os_getaddrinfo =
        (\<lambda>w host service h. if host = ''localhost'' then (0, [loopback6, loopback4])
                             else (- 2, [])),
      os_socket = (\<lambda>w f ty pr. if f = 10 then 4 else 5),
      os_connect = (\<lambda>w s a l. if s = 5 then 0 else - 1),
      os_send = (\<lambda>w s d n. if n < 2 then n else 2),
      os_recv = (\<lambda>w s n. (0, [])),
      os_errno = (\<lambda>w. 111),
      string_max_size = 0x3FFFFFFFFFFFFFFF,
      storage_granted = (\<lambda>w n. n \<le> 0x100000)\<rparr>"

definition fresh :: TcpClient where
  "fresh = \<lparr>socket_m = invalid_socket, connected_m = False\<rparr>"

definition holding :: "SocketHandle \<Rightarrow> TcpClient" where
  "holding s = \<lparr>socket_m = s, connected_m = True\<rparr>"

section \<open>Properties\<close>

subsection \<open>Conversions between \<^verbatim>\<open>ssize_t\<close>, \<^verbatim>\<open>int\<close> and \<^verbatim>\<open>size_t\<close>\<close>

lemma sint_narrow:
  fixes a :: "64 word"
  assumes "a \<le> 0x7FFFFFFF"
  shows "sint (ucast a :: 32 word) = uint a"
proof -
  from assms have b: "uint a \<le> 0x7FFFFFFF" by (simp add: word_le_def)
  have 1: "uint (ucast a :: 32 word) = take_bit 32 (uint a)"
    by (simp add: unsigned_ucast_eq)
  have 2: "take_bit 32 (uint a) = uint a"
    using b by (simp add: take_bit_int_eq_self)
  have 3: "sint (ucast a :: 32 word) = signed_take_bit 31 (uint (ucast a :: 32 word))"
    by (simp add: sint_uint)
  have "(- (2 ^ 31) :: int) \<le> 0" by simp
  also have "0 \<le> uint a" by simp
  finally have lo: "- (2 ^ 31) \<le> uint a" .
  from b have hi: "uint a < 2 ^ 31" by simp
  have 4: "signed_take_bit 31 (uint a) = uint a"
    using lo hi by (rule signed_take_bit_int_eq_self)
  show ?thesis by (simp only: 1 2 3 4)
qed

lemma scast_narrow:
  fixes a :: "64 word"
  assumes "a \<le> 0x7FFFFFFF"
  shows "(scast (ucast a :: 32 word) :: 64 word) = a"
  by (simp only: scast_eq sint_narrow [OF assms] word_of_int_uint)

lemma narrow_sle_zero:
  fixes a :: "64 word"
  assumes "a \<le> 0x7FFFFFFF"
  shows "((ucast a :: 32 word) \<le>s 0) = (a = 0)"
proof -
  have "((ucast a :: 32 word) \<le>s 0) = (uint a \<le> 0)"
    by (simp add: word_sle_eq sint_narrow [OF assms])
  also have "\<dots> = (a = 0)"
    by (simp add: word_uint_eq_iff)
  finally show ?thesis .
qed

lemma narrow_minus_one: "(ucast (- 1 :: 64 word) :: 32 word) = - 1"
  by (rule bit_word_eqI) (simp add: bit_simps)

lemma minus_one_sle: "(- 1 :: 32 word) \<le>s 0"
  by (simp add: word_sle_eq)

lemma chunk_widened:
  fixes r :: "64 word"
  shows "(scast (if r > ucast INT_MAX then INT_MAX else (ucast r :: 32 word)) :: 64 word)
           = (if r > 0x7FFFFFFF then 0x7FFFFFFF else r)"
  by (auto simp: INT_MAX_def scast_narrow not_less)

lemma advance:
  fixes tot len a :: "64 word"
  shows "tot < len \<Longrightarrow> a \<le> len - tot \<Longrightarrow>
     tot + a \<le> len \<and> unat (tot + a) = unat tot + unat a"
  by (metis (no_types, lifting) add.commute le_plus
    plus_minus_no_overflow_ab unat_plus_simple word_le_less_eq)

subsection \<open>The send loop\<close>

text \<open>
  On a platform that keeps the contract the loop ends, and it ends in one of two ways:
  with the whole length, or with the exception of a failed call, whose only content is
  the platform's error code after that call.
\<close>

lemma send_loop_returns:
  assumes P: "send_contract P"
  shows "tot \<le> len \<Longrightarrow>
     \<exists>r w'. send_loop P s bytes len tot w = Some (r, w') \<and>
       (r = Inr len \<or> r = Inl (runtime_error ''send failed: '' (strerror (os_errno P w'))))"
proof (induction "unat len - unat tot" arbitrary: tot w rule: less_induct)
  case less
  show ?case
  proof (cases "tot < len")
    case False
    with less.prems have "tot = len" by simp
    then show ?thesis by (subst send_loop.simps) simp
  next
    case True
    define remaining where "remaining = len - tot"
    define chunk where
      "chunk = (if remaining > ucast INT_MAX then INT_MAX else (ucast remaining :: c_int))"
    define passed where "passed = take (unat chunk) (drop (unat tot) bytes)"
    define answer where "answer = os_send P w s passed (scast chunk)"
    define w1 where "w1 = w @ [Ev_send s passed (scast chunk) answer]"
    have unfolded: "send_loop P s bytes len tot w =
        (if (ucast answer :: c_int) \<le>s 0
         then Some (Inl (runtime_error ''send failed: ''
                (format_network_error (last_socket_error P w1))), w1)
         else send_loop P s bytes len (tot + scast (ucast answer :: c_int)) w1)"
      using True
      by (subst send_loop.simps)
         (simp add: Let_def remaining_def chunk_def passed_def answer_def w1_def)
    have wide: "(scast chunk :: size_t) = (if remaining > 0x7FFFFFFF then 0x7FFFFFFF else remaining)"
      unfolding chunk_def by (rule chunk_widened)
    from P have "answer = - 1 \<or> answer \<le> scast chunk"
      unfolding send_contract_def answer_def by blast
    then show ?thesis
    proof
      assume "answer = - 1"
      then have "(ucast answer :: c_int) \<le>s 0"
        by (simp add: narrow_minus_one minus_one_sle)
      then show ?thesis
        by (simp add: unfolded format_network_error_def last_socket_error_def)
    next
      assume le: "answer \<le> scast chunk"
      then have small: "answer \<le> 0x7FFFFFFF" and rem: "answer \<le> remaining"
        by (auto simp: wide split: if_splits)
      show ?thesis
      proof (cases "answer = 0")
        case True
        then show ?thesis
          by (simp add: unfolded format_network_error_def last_socket_error_def narrow_sle_zero)
      next
        case False
        then have pos: "\<not> (ucast answer :: c_int) \<le>s 0"
          by (simp add: narrow_sle_zero [OF small])
        have widen: "(scast (ucast answer :: c_int) :: size_t) = answer"
          by (rule scast_narrow [OF small])
        from advance [OF \<open>tot < len\<close> rem [unfolded remaining_def]]
        have next_le: "tot + answer \<le> len"
          and next_unat: "unat (tot + answer) = unat tot + unat answer"
          by simp_all
        from False have "0 < unat answer" by (simp add: unat_gt_0)
        moreover from \<open>tot < len\<close> have "unat tot < unat len" by (simp add: word_less_nat_alt)
        ultimately have "unat len - unat (tot + answer) < unat len - unat tot"
          using next_unat next_le by (simp add: word_le_nat_alt)
        from less.hyps [OF this next_le] show ?thesis
          by (simp add: unfolded pos widen)
      qed
    qed
  qed
qed

lemma scripted_send_contract: "send_contract scripted_platform"
  by (simp add: send_contract_def scripted_platform_def not_less)

text \<open>
  C1. On a connected instance, and on a platform whose \<^verbatim>\<open>send\<close> keeps the POSIX contract,
  \<^verbatim>\<open>send(data, length)\<close> returns; it leaves the object as it was; and its outcome is either
  the value \<open>length\<close> itself or an exception. The exception of a failed platform call is
  made of the platform's error code alone: the number of bytes accepted by earlier calls
  is not part of it. There is no third outcome, so no count below \<open>length\<close> is ever
  returned. The same holds of \<^verbatim>\<open>send(string)\<close> with the string's size for \<open>length\<close>.
\<close>

theorem send_all_or_throw:
  assumes "send_contract P" and "is_connected c" and "socket_m c \<noteq> invalid_socket"
  shows "(\<exists>r w'. send P data len c w = Some (r, c, w') \<and>
            (r = Inr len
             \<or> r = Inl (invalid_argument ''data pointer must not be null when length > 0'')
             \<or> r = Inl (runtime_error ''send failed: '' (strerror (os_errno P w')))))
       \<and> (\<exists>r w'. send_string P str c w = Some (r, c, w') \<and>
            (r = Inr (of_nat (List.length str))
             \<or> r = Inl (runtime_error ''send failed: '' (strerror (os_errno P w')))))"
proof -
  have ok: "ensure_connected c = Inr ()"
    using assms(2,3) by (simp add: ensure_connected_def is_connected_def)
  have loop: "\<exists>r w'. send_loop P (socket_m c) bytes n 0 w = Some (r, w') \<and>
       (r = Inr n \<or> r = Inl (runtime_error ''send failed: '' (strerror (os_errno P w'))))"
    for bytes n
    by (rule send_loop_returns [OF assms(1)]) simp
  have first: "\<exists>r w'. send P data len c w = Some (r, c, w') \<and>
            (r = Inr len
             \<or> r = Inl (invalid_argument ''data pointer must not be null when length > 0'')
             \<or> r = Inl (runtime_error ''send failed: '' (strerror (os_errno P w'))))"
  proof (cases "data = None \<and> len > 0")
    case True
    then show ?thesis by (simp add: send_def ok)
  next
    case False
    from loop [of "case data of None \<Rightarrow> [] | Some bytes \<Rightarrow> bytes" len]
    obtain r w' where
      "send_loop P (socket_m c) (case data of None \<Rightarrow> [] | Some bytes \<Rightarrow> bytes) len 0 w
         = Some (r, w')"
      and "r = Inr len \<or> r = Inl (runtime_error ''send failed: '' (strerror (os_errno P w')))"
      by blast
    with False show ?thesis by (auto simp: send_def ok)
  qed
  have second: "\<exists>r w'. send_string P str c w = Some (r, c, w') \<and>
            (r = Inr (of_nat (List.length str))
             \<or> r = Inl (runtime_error ''send failed: '' (strerror (os_errno P w'))))"
  proof (cases "str = []")
    case True
    then show ?thesis by (simp add: send_string_def)
  next
    case False
    from loop [of str "of_nat (List.length str)"]
    obtain r w' where
      "send_loop P (socket_m c) str (of_nat (List.length str)) 0 w = Some (r, w')"
      and "r = Inr (of_nat (List.length str))
           \<or> r = Inl (runtime_error ''send failed: '' (strerror (os_errno P w')))"
      by blast
    with False show ?thesis by (auto simp: send_string_def send_def ok)
  qed
  from first second show ?thesis ..
qed

text \<open>
  On the scripted platform five bytes leave in three calls, each offered all that
  remains and taking two, two and one byte, and the call returns five.
\<close>

theorem send_all_or_throw_witness:
  "send_contract scripted_platform \<and> is_connected (holding 5) \<and>
   socket_m (holding 5) \<noteq> invalid_socket \<and>
   send scripted_platform (Some ''hello'') 5 (holding 5) [] =
     Some (Inr 5, holding 5,
       [Ev_send 5 ''hello'' 5 2, Ev_send 5 ''llo'' 3 2, Ev_send 5 ''o'' 1 1])"
proof -
  have h1: "send_contract scripted_platform" by (rule scripted_send_contract)
  have h2: "is_connected (holding 5)" by (simp add: is_connected_def holding_def)
  have h3: "socket_m (holding 5) \<noteq> invalid_socket" by (simp add: holding_def invalid_socket_def)
  have run: "send scripted_platform (Some ''hello'') 5 (holding 5) [] =
     Some (Inr 5, holding 5,
       [Ev_send 5 ''hello'' 5 2, Ev_send 5 ''llo'' 3 2, Ev_send 5 ''o'' 1 1])"
    by code_simp
  from send_all_or_throw [OF h1 h2 h3, of "Some ''hello''" 5 "[]" "''hello''"] run h1 h2 h3
  show ?thesis by simp
qed

text \<open>
  C4. For the empty host string and every port, \<^verbatim>\<open>connect\<close> throws
  \<^verbatim>\<open>std::invalid_argument\<close>, and the history of system calls is what it was before:
  no name resolution, and no other call, has been attempted.
\<close>

theorem connect_empty_host:
  "connect P [] port c w = (Inl (invalid_argument ''host must not be empty''), c, w)"
  by (simp add: connect_def)

theorem connect_empty_host_witness:
  "connect scripted_platform [] 80 fresh [] =
     (Inl (invalid_argument ''host must not be empty''), fresh, [])"
  by (rule connect_empty_host)

text \<open>
  C7. \<^verbatim>\<open>close\<close> has no failing outcome (its result is always a state). Every call leaves
  the sentinel in the handle and the flag off, whatever was held. The only system call it
  can make is the one that releases a held socket; on an instance that holds none it
  makes no call; and closing a second time changes neither the object nor the history.
\<close>

theorem close_idempotent:
  "socket_m (fst (close c w)) = invalid_socket
   \<and> \<not> is_connected (fst (close c w))
   \<and> snd (close c w) =
       (if socket_m c = invalid_socket then w else w @ [Ev_close (socket_m c)])
   \<and> close (fst (close c w)) (snd (close c w)) = close c w"
  by (simp add: close_def reset_socket_def close_socket_def is_connected_def Let_def)

theorem close_idempotent_witness:
  "socket_m (fst (close (holding 5) [])) = invalid_socket
   \<and> \<not> is_connected (fst (close (holding 5) []))
   \<and> snd (close (holding 5) []) = [Ev_close 5]
   \<and> close (fst (close (holding 5) [])) (snd (close (holding 5) [])) = close (holding 5) []"
  using close_idempotent [of "holding 5" "[]"]
  by (simp add: holding_def invalid_socket_def close_def close_socket_def reset_socket_def
      is_connected_def)

subsection \<open>The connect loop only adds to the history\<close>

lemma connect_loop_appends: "\<exists>t. snd (connect_loop P results handle w) = w @ t"
proof (induction results arbitrary: handle w)
  case Nil
  show ?case by simp
next
  case (Cons ptr rest)
  define h where "h = os_socket P w (ai_family ptr) (ai_socktype ptr) (ai_protocol ptr)"
  define w1 where "w1 = w @ [Ev_socket (ai_family ptr) (ai_socktype ptr) (ai_protocol ptr) h]"
  define cr where "cr = os_connect P w1 h (ai_addr ptr) (ai_addrlen ptr)"
  define w2 where "w2 = w1 @ [Ev_connect h (ai_addr ptr) (ai_addrlen ptr) cr]"
  have step: "connect_loop P (ptr # rest) handle w =
      (if h = invalid_socket then connect_loop P rest h w1
       else if cr = 0 then (h, w2)
       else connect_loop P rest invalid_socket (close_socket h w2))"
    by (simp add: Let_def h_def w1_def cr_def w2_def)
  have grown: "w1 = w @ [Ev_socket (ai_family ptr) (ai_socktype ptr) (ai_protocol ptr) h]"
    "w2 = w @ [Ev_socket (ai_family ptr) (ai_socktype ptr) (ai_protocol ptr) h,
               Ev_connect h (ai_addr ptr) (ai_addrlen ptr) cr]"
    by (simp_all add: w1_def w2_def)
  show ?case
  proof (cases "h = invalid_socket")
    case True
    from Cons.IH [of h w1] obtain t where t: "snd (connect_loop P rest h w1) = w1 @ t" ..
    from True have "connect_loop P (ptr # rest) handle w = connect_loop P rest h w1"
      by (subst step) simp
    with t have "snd (connect_loop P (ptr # rest) handle w) =
        w @ (Ev_socket (ai_family ptr) (ai_socktype ptr) (ai_protocol ptr) h # t)"
      by (simp add: grown(1))
    then show ?thesis ..
  next
    case False
    show ?thesis
    proof (cases "cr = 0")
      case True
      with False have "connect_loop P (ptr # rest) handle w = (h, w2)"
        by (subst step) simp
      then have "snd (connect_loop P (ptr # rest) handle w) =
          w @ [Ev_socket (ai_family ptr) (ai_socktype ptr) (ai_protocol ptr) h,
               Ev_connect h (ai_addr ptr) (ai_addrlen ptr) cr]"
        by (simp add: grown(2))
      then show ?thesis ..
    next
      case nonzero: False
      from Cons.IH [of invalid_socket "close_socket h w2"] obtain t
        where t: "snd (connect_loop P rest invalid_socket (close_socket h w2))
                 = close_socket h w2 @ t" ..
      from False nonzero have "connect_loop P (ptr # rest) handle w =
          connect_loop P rest invalid_socket (close_socket h w2)"
        by (subst step) simp
      with t False have "snd (connect_loop P (ptr # rest) handle w) =
          w @ (Ev_socket (ai_family ptr) (ai_socktype ptr) (ai_protocol ptr) h #
               Ev_connect h (ai_addr ptr) (ai_addrlen ptr) cr # Ev_close h # t)"
        by (simp add: grown(2) close_socket_def)
      then show ?thesis ..
    qed
  qed
qed

text \<open>
  C2 (as amended). On an instance that is not connected, \<^verbatim>\<open>send(data, length)\<close> with any
  arguments, \<^verbatim>\<open>receive\<close> with any \<open>max_bytes\<close> and \<^verbatim>\<open>send(string)\<close> with a non-empty string
  throw \<^verbatim>\<open>std::logic_error\<close> and make no system call; \<^verbatim>\<open>send(string)\<close> with the empty
  string returns 0, also without a system call.
\<close>

theorem not_connected_throws:
  assumes "\<not> is_connected c"
  shows "send P data len c w = Some (Inl (logic_error ''socket is not connected''), c, w)
       \<and> receive P max_bytes c w = (Inl (logic_error ''socket is not connected''), c, w)
       \<and> (str \<noteq> [] \<longrightarrow>
            send_string P str c w = Some (Inl (logic_error ''socket is not connected''), c, w))
       \<and> send_string P [] c w = Some (Inr 0, c, w)"
  using assms
  by (simp add: send_def receive_def send_string_def ensure_connected_def is_connected_def)

theorem not_connected_throws_witness:
  "\<not> is_connected fresh
   \<and> send scripted_platform (Some ''hello'') 5 fresh [] =
        Some (Inl (logic_error ''socket is not connected''), fresh, [])
   \<and> receive scripted_platform 4096 fresh [] =
        (Inl (logic_error ''socket is not connected''), fresh, [])
   \<and> send_string scripted_platform ''hello'' fresh [] =
        Some (Inl (logic_error ''socket is not connected''), fresh, [])
   \<and> send_string scripted_platform [] fresh [] = Some (Inr 0, fresh, [])"
proof -
  have h: "\<not> is_connected fresh" by (simp add: is_connected_def fresh_def)
  from not_connected_throws [OF h, of scripted_platform "Some ''hello''" 5 "[]" 4096 "''hello''"] h
  show ?thesis by simp
qed

text \<open>
  C2 as stated fails: on a freshly constructed, not connected instance the empty string
  is sent with result 0, not with a \<^verbatim>\<open>std::logic_error\<close>.
\<close>

theorem send_empty_string_not_connected:
  "\<not> is_connected fresh
   \<and> send_string scripted_platform [] fresh [] = Some (Inr 0, fresh, [])
   \<and> send_string scripted_platform [] fresh []
        \<noteq> Some (Inl (logic_error ''socket is not connected''), fresh, [])"
  by (simp add: send_string_def is_connected_def fresh_def)

text \<open>
  C3 (as amended). \<^verbatim>\<open>send\<close> of the empty string returns 0 on every instance and makes no
  system call. \<^verbatim>\<open>send(data, 0)\<close> returns 0 without a system call on a connected instance,
  and throws \<^verbatim>\<open>std::logic_error\<close> on one that is not connected.
\<close>

theorem zero_length_send:
  "send_string P [] c w = Some (Inr 0, c, w)
   \<and> (is_connected c \<and> socket_m c \<noteq> invalid_socket \<longrightarrow> send P data 0 c w = Some (Inr 0, c, w))
   \<and> (\<not> is_connected c \<longrightarrow>
        send P data 0 c w = Some (Inl (logic_error ''socket is not connected''), c, w))"
  by (simp add: send_string_def send_def ensure_connected_def is_connected_def send_loop.simps)

theorem zero_length_send_witness:
  "send_string scripted_platform [] (holding 5) [] = Some (Inr 0, holding 5, [])
   \<and> is_connected (holding 5) \<and> socket_m (holding 5) \<noteq> invalid_socket
   \<and> send scripted_platform (Some []) 0 (holding 5) [] = Some (Inr 0, holding 5, [])
   \<and> \<not> is_connected fresh
   \<and> send scripted_platform (Some []) 0 fresh [] =
        Some (Inl (logic_error ''socket is not connected''), fresh, [])"
proof -
  have h1: "is_connected (holding 5) \<and> socket_m (holding 5) \<noteq> invalid_socket"
    by (simp add: is_connected_def holding_def invalid_socket_def)
  have h2: "\<not> is_connected fresh" by (simp add: is_connected_def fresh_def)
  from zero_length_send [of scripted_platform "holding 5" "[]" "Some []"]
    zero_length_send [of scripted_platform fresh "[]" "Some []"] h1 h2
  show ?thesis by simp
qed

text \<open>
  C3 as stated fails: on a freshly constructed instance \<^verbatim>\<open>send(data, 0)\<close> throws
  instead of returning 0.
\<close>

theorem send_zero_length_not_connected:
  "send scripted_platform (Some []) 0 fresh [] =
     Some (Inl (logic_error ''socket is not connected''), fresh, [])
   \<and> send scripted_platform (Some []) 0 fresh [] \<noteq> Some (Inr 0, fresh, [])"
  by (simp add: send_def ensure_connected_def fresh_def)

text \<open>
  A buffer that cannot be had: with \<open>max_bytes\<close> above \<^verbatim>\<open>max_size()\<close>, or with no storage
  for it, a connected \<^verbatim>\<open>receive\<close> throws before any read, and the object stays as it is.
\<close>

lemma receive_without_buffer:
  assumes "is_connected c" and "socket_m c \<noteq> invalid_socket" and "max_bytes \<noteq> 0"
  shows "string_max_size P < max_bytes \<Longrightarrow> receive P max_bytes c w = (Inl length_error, c, w)"
    and "max_bytes \<le> string_max_size P \<Longrightarrow> \<not> storage_granted P w max_bytes \<Longrightarrow>
           receive P max_bytes c w = (Inl bad_alloc, c, w)"
  using assms
  by (simp_all add: receive_def ensure_connected_def is_connected_def string_resize_def
      unat_eq_0 not_less [symmetric])

text \<open>
  C6. On a connected instance, a \<^verbatim>\<open>receive\<close> whose read is answered with zero bytes
  returns the empty string as a normal result, releases the socket, and leaves the
  instance not connected, with the sentinel for a handle. A read is made when
  \<open>max_bytes\<close> is not zero and the buffer of \<open>max_bytes\<close> characters is had: the size is
  within \<^verbatim>\<open>max_size()\<close> and the allocator grants it.
\<close>

theorem receive_peer_closed:
  assumes "is_connected c" and "socket_m c \<noteq> invalid_socket" and "max_bytes \<noteq> 0"
    and "max_bytes \<le> string_max_size P" and "storage_granted P w max_bytes"
    and "os_recv P w (socket_m c) max_bytes = (0, written)"
  shows "receive P max_bytes c w =
           (Inr [], reset_socket c,
            w @ [Ev_recv (socket_m c) max_bytes 0 written, Ev_close (socket_m c)])
         \<and> \<not> is_connected (reset_socket c)
         \<and> socket_m (reset_socket c) = invalid_socket"
proof -
  from assms(4) have within: "\<not> string_max_size P < max_bytes"
    by (rule leD)
  from assms(3,5) within
  have buffer: "string_resize P w max_bytes [] = Inr (resize (unat max_bytes) [])"
    by (simp add: string_resize_def unat_eq_0)
  from assms(1,2,3,6) show ?thesis
    by (simp add: receive_def buffer ensure_connected_def is_connected_def close_def
        close_socket_def reset_socket_def Let_def)
qed

theorem receive_peer_closed_witness:
  "is_connected (holding 5) \<and> socket_m (holding 5) \<noteq> invalid_socket \<and> (4096 :: size_t) \<noteq> 0
   \<and> 4096 \<le> string_max_size scripted_platform
   \<and> storage_granted scripted_platform [] 4096
   \<and> os_recv scripted_platform [] (socket_m (holding 5)) 4096 = (0, [])
   \<and> receive scripted_platform 4096 (holding 5) [] =
       (Inr [], fresh, [Ev_recv 5 4096 0 [], Ev_close 5])
   \<and> \<not> is_connected fresh"
proof -
  have h1: "is_connected (holding 5)" by (simp add: is_connected_def holding_def)
  have h2: "socket_m (holding 5) \<noteq> invalid_socket" by (simp add: holding_def invalid_socket_def)
  have h3: "(4096 :: size_t) \<noteq> 0" by simp
  have h4: "4096 \<le> string_max_size scripted_platform"
    by (simp add: scripted_platform_def)
  have h5: "storage_granted scripted_platform [] 4096"
    by (simp add: scripted_platform_def)
  have h6: "os_recv scripted_platform [] (socket_m (holding 5)) 4096 = (0, [])"
    by (simp add: scripted_platform_def)
  have same: "reset_socket (holding 5) = fresh"
    by (simp add: reset_socket_def holding_def fresh_def)
  from receive_peer_closed [OF h1 h2 h3 h4 h5 h6] h1 h2 h4 h5 h6 same
  show ?thesis by (simp add: holding_def)
qed

text \<open>
  C8. Let \<open>this\<close> and \<open>other\<close> be two objects. Move construction from a connected
  \<open>other\<close> leaves \<open>this\<close> connected with the handle \<open>other\<close> had, and \<open>other\<close> not
  connected with the sentinel; a \<^verbatim>\<open>close\<close> of \<open>other\<close> after that makes no system call and
  changes no object. Move assignment first releases the socket \<open>this\<close> held, if any, then
  gives \<open>this\<close> the handle and the flag of \<open>other\<close> and resets \<open>other\<close>; no third object
  changes. Assigning an object to itself does nothing.
\<close>

theorem move_transfers_ownership:
  assumes "this \<noteq> other"
  shows "(is_connected (st other) \<longrightarrow>
            is_connected (move_construct this other st this)
          \<and> socket_m (move_construct this other st this) = socket_m (st other)
          \<and> \<not> is_connected (move_construct this other st other)
          \<and> socket_m (move_construct this other st other) = invalid_socket
          \<and> close_at other (move_construct this other st) w = (move_construct this other st, w))
       \<and> move_assign this other st w =
            ((st(this := \<lparr>socket_m = socket_m (st other), connected_m = connected_m (st other)\<rparr>))
               (other := \<lparr>socket_m = invalid_socket, connected_m = False\<rparr>),
             if socket_m (st this) = invalid_socket then w
             else w @ [Ev_close (socket_m (st this))])
       \<and> move_assign this this st w = (st, w)"
  using assms
  by (auto simp: move_construct_def move_assign_def close_at_def close_def close_socket_def
      reset_socket_def is_connected_def Let_def fun_eq_iff)

theorem move_transfers_ownership_witness:
  "(2 :: addr) \<noteq> 1
   \<and> is_connected ((\<lambda>a. if a = 1 then holding 5 else holding 7) 1)
   \<and> is_connected (move_construct 2 1 (\<lambda>a. if a = 1 then holding 5 else holding 7) 2)
   \<and> socket_m (move_construct 2 1 (\<lambda>a. if a = 1 then holding 5 else holding 7) 2) = 5
   \<and> \<not> is_connected (move_construct 2 1 (\<lambda>a. if a = 1 then holding 5 else holding 7) 1)
   \<and> close_at 1 (move_construct 2 1 (\<lambda>a. if a = 1 then holding 5 else holding 7)) [] =
        (move_construct 2 1 (\<lambda>a. if a = 1 then holding 5 else holding 7), [])
   \<and> snd (move_assign 2 1 (\<lambda>a. if a = 1 then holding 5 else holding 7) []) = [Ev_close 7]
   \<and> fst (move_assign 2 1 (\<lambda>a. if a = 1 then holding 5 else holding 7) []) 2 = holding 5
   \<and> fst (move_assign 2 1 (\<lambda>a. if a = 1 then holding 5 else holding 7) []) 1 = fresh"
proof -
  have h1: "(2 :: addr) \<noteq> 1" by simp
  have h2: "is_connected ((\<lambda>a. if a = 1 then holding 5 else holding 7) (1 :: addr))"
    by (simp add: is_connected_def holding_def)
  from move_transfers_ownership [OF h1, of "\<lambda>a. if a = 1 then holding 5 else holding 7" "[]"] h1 h2
  show ?thesis
    by (simp add: holding_def fresh_def invalid_socket_def)
qed

text \<open>
  C9. The invariant: the flag is on exactly when the handle is not the sentinel. The
  constructor establishes it; \<^verbatim>\<open>reset_socket\<close>, \<^verbatim>\<open>close\<close> and the destructor establish it
  from any state; \<^verbatim>\<open>connect\<close>, both \<^verbatim>\<open>send\<close>s and \<^verbatim>\<open>receive\<close> keep it, whether they
  return or throw; and the two moves and a \<^verbatim>\<open>close\<close> keep it for every object of the
  store (the object under construction need not satisfy it beforehand).
\<close>

theorem invariant_preserved:
  "consistent (fst (TcpClient_new w))
   \<and> consistent (reset_socket c)
   \<and> consistent (fst (close c w))
   \<and> consistent (fst (TcpClient_delete c w))
   \<and> (consistent c \<longrightarrow> consistent (fst (snd (connect P host port c w))))
   \<and> (consistent c \<longrightarrow>
        (\<forall>r c' w'. send P data len c w = Some (r, c', w') \<longrightarrow> consistent c'))
   \<and> (consistent c \<longrightarrow>
        (\<forall>r c' w'. send_string P str c w = Some (r, c', w') \<longrightarrow> consistent c'))
   \<and> (consistent c \<longrightarrow> consistent (fst (snd (receive P max_bytes c w))))
   \<and> ((\<forall>a. a \<noteq> this \<longrightarrow> consistent (st a)) \<longrightarrow>
        (\<forall>a. consistent (move_construct this other st a)))
   \<and> ((\<forall>a. consistent (st a)) \<longrightarrow> (\<forall>a. consistent (fst (move_assign this other st w) a)))
   \<and> ((\<forall>a. consistent (st a)) \<longrightarrow> (\<forall>a. consistent (fst (close_at this st w) a)))"
proof -
  have new: "consistent (fst (TcpClient_new w))"
    by (simp add: TcpClient_new_def consistent_def)
  have reset: "consistent (reset_socket c)" for c
    by (simp add: reset_socket_def consistent_def)
  have closed: "consistent (fst (close c w))" for c w
    by (simp add: close_def reset Let_def)
  have deleted: "consistent (fst (TcpClient_delete c w))"
    by (simp add: TcpClient_delete_def closed)
  have connected: "consistent c \<longrightarrow> consistent (fst (snd (connect P host port c w)))"
    by (auto simp: connect_def close_def reset Let_def consistent_def reset_socket_def
        split: prod.splits)
  have sent: "consistent c \<longrightarrow>
        (\<forall>r c' w'. send P data len c w = Some (r, c', w') \<longrightarrow> consistent c')" for data len
    by (auto simp: send_def split: sum.splits if_splits option.splits)
  have sent_string: "consistent c \<longrightarrow>
        (\<forall>r c' w'. send_string P str c w = Some (r, c', w') \<longrightarrow> consistent c')"
    using sent [of "Some str" "of_nat (List.length str)"]
    by (auto simp: send_string_def split: if_splits)
  have received: "consistent c \<longrightarrow> consistent (fst (snd (receive P max_bytes c w)))"
    by (auto simp: receive_def close_def reset Let_def split: sum.splits prod.splits)
  have constructed: "(\<forall>a. a \<noteq> this \<longrightarrow> consistent (st a)) \<longrightarrow>
        (\<forall>a. consistent (move_construct this other st a))"
    by (auto simp: move_construct_def Let_def consistent_def reset_socket_def)
  have assigned: "(\<forall>a. consistent (st a)) \<longrightarrow>
        (\<forall>a. consistent (fst (move_assign this other st w) a))"
    by (auto simp: move_assign_def Let_def consistent_def reset_socket_def close_def)
  have closed_at: "(\<forall>a. consistent (st a)) \<longrightarrow>
        (\<forall>a. consistent (fst (close_at this st w) a))"
    by (auto simp: close_at_def Let_def consistent_def reset_socket_def close_def)
  from new reset closed deleted connected sent sent_string received constructed assigned
    closed_at
  show ?thesis by blast
qed

theorem invariant_preserved_witness:
  "consistent (holding 5)
   \<and> (\<forall>a. consistent ((\<lambda>a. if a = (1 :: addr) then holding 5 else fresh) a))
   \<and> consistent (fst (TcpClient_new []))
   \<and> consistent (fst (close (holding 5) []))
   \<and> consistent (fst (snd (connect scripted_platform ''localhost'' 7 (holding 5) [])))
   \<and> consistent (fst (snd (receive scripted_platform 4096 (holding 5) [])))
   \<and> consistent (move_construct 2 1 (\<lambda>a. if a = 1 then holding 5 else fresh) 2)
   \<and> consistent (fst (move_assign 2 1 (\<lambda>a. if a = 1 then holding 5 else fresh) []) 1)"
proof -
  have h1: "consistent (holding 5)"
    by (simp add: consistent_def holding_def invalid_socket_def)
  have h2: "\<forall>a. consistent ((\<lambda>a. if a = (1 :: addr) then holding 5 else fresh) a)"
    by (simp add: consistent_def holding_def fresh_def invalid_socket_def)
  then have h3: "\<forall>a. a \<noteq> 2 \<longrightarrow> consistent ((\<lambda>a. if a = (1 :: addr) then holding 5 else fresh) a)"
    by blast
  from invariant_preserved [of "[]" "holding 5" scripted_platform "''localhost''" 7
      "Some ''hello''" 5 "''hello''" 4096 2 "\<lambda>a. if a = 1 then holding 5 else fresh" 1]
    h1 h2 h3
  show ?thesis by blast
qed

text \<open>
  C10. \<^verbatim>\<open>connect\<close> with the empty host throws with the object untouched and without a
  system call, so a connected instance stays connected with its handle. With a non-empty
  host, whenever \<^verbatim>\<open>connect\<close> throws, the instance is left not connected, and the history
  shows the release of the socket held before (if one was held) followed directly by the
  name resolution.
\<close>

theorem connect_failure_atomicity:
  "connect P [] port c w = (Inl (invalid_argument ''host must not be empty''), c, w)
   \<and> (host \<noteq> [] \<longrightarrow> connect P host port c w = (Inl e, c', w') \<longrightarrow>
        \<not> is_connected c' \<and> socket_m c' = invalid_socket
        \<and> (\<exists>rc results t.
              w' = (if socket_m c = invalid_socket then w else w @ [Ev_close (socket_m c)])
                   @ Ev_getaddrinfo host (to_string (unat port)) hints rc results # t))"
proof -
  have empty: "connect P [] port c w = (Inl (invalid_argument ''host must not be empty''), c, w)"
    by (simp add: connect_def)
  have late: "\<not> is_connected c' \<and> socket_m c' = invalid_socket
        \<and> (\<exists>rc results t.
              w' = (if socket_m c = invalid_socket then w else w @ [Ev_close (socket_m c)])
                   @ Ev_getaddrinfo host (to_string (unat port)) hints rc results # t)"
    if host: "host \<noteq> []" and fails: "connect P host port c w = (Inl e, c', w')"
  proof -
    define w1 where "w1 = (if socket_m c = invalid_socket then w else w @ [Ev_close (socket_m c)])"
    define service where "service = to_string (unat port)"
    obtain rc results where res: "os_getaddrinfo P w1 host service hints = (rc, results)"
      by (cases "os_getaddrinfo P w1 host service hints")
    define w3 where "w3 = w1 @ [Ev_getaddrinfo host service hints rc results]"
    have cl: "close c w = (reset_socket c, w1)"
      by (simp add: close_def close_socket_def w1_def Let_def)
    show ?thesis
    proof (cases "rc \<noteq> 0 \<or> results = []")
      case True
      with host fails cl res have "c' = reset_socket c" and "w' = w3"
        by (auto simp: connect_def initialize_platform_def service_def w3_def Let_def)
      then show ?thesis
        by (auto simp: reset_socket_def is_connected_def w3_def w1_def service_def)
    next
      case False
      obtain handle w4 where loop: "connect_loop P results invalid_socket w3 = (handle, w4)"
        by (cases "connect_loop P results invalid_socket w3")
      from connect_loop_appends [of P results invalid_socket w3] loop
      obtain t where t: "w4 = w3 @ t" by auto
      from False host fails cl res loop have "c' = reset_socket c" and "w' = w4 @ [Ev_freeaddrinfo results]"
        by (auto simp: connect_def initialize_platform_def service_def w3_def Let_def
            split: if_splits)
      with t show ?thesis
        by (auto simp: reset_socket_def is_connected_def w3_def w1_def service_def)
    qed
  qed
  from empty late show ?thesis by blast
qed

theorem connect_failure_atomicity_witness:
  "connect scripted_platform [] 7 (holding 9) [] =
     (Inl (invalid_argument ''host must not be empty''), holding 9, [])
   \<and> is_connected (holding 9)
   \<and> ''nowhere'' \<noteq> []
   \<and> connect scripted_platform ''nowhere'' 7 (holding 9) [] =
       (Inl (runtime_error ''getaddrinfo failed: '' (Text ''no addresses resolved'')), fresh,
        [Ev_close 9, Ev_getaddrinfo ''nowhere'' ''7'' hints (- 2) []])
   \<and> \<not> is_connected fresh"
proof -
  have h1: "''nowhere'' \<noteq> []" by simp
  have h2: "connect scripted_platform ''nowhere'' 7 (holding 9) [] =
       (Inl (runtime_error ''getaddrinfo failed: '' (Text ''no addresses resolved'')), fresh,
        [Ev_close 9, Ev_getaddrinfo ''nowhere'' ''7'' hints (- 2) []])"
    by code_simp
  have h3: "is_connected (holding 9)" by (simp add: is_connected_def holding_def)
  from connect_failure_atomicity [of scripted_platform 7 "holding 9" "[]" "''nowhere''"
      "runtime_error ''getaddrinfo failed: '' (Text ''no addresses resolved'')" fresh
      "[Ev_close 9, Ev_getaddrinfo ''nowhere'' ''7'' hints (- 2) []]"] h1 h2 h3
  show ?thesis by simp
qed

subsection \<open>The connect loop keeps the attempt policy\<close>

lemma policy_exhausted:
  "follows_policy results t invalid_socket \<Longrightarrow>
     socket_calls t = List.length results \<and> (\<forall>e \<in> set t. \<not> accepted e)"
  by (induction results t "invalid_socket" rule: follows_policy.induct)
     (auto split: list.splits event.splits if_splits)

lemma connect_loop_follows:
  "\<exists>adopted t. connect_loop P results invalid_socket w = (adopted, w @ t)
      \<and> follows_policy results t adopted \<and> genuine P w t"
proof (induction results arbitrary: w)
  case Nil
  show ?case by simp
next
  case (Cons ptr rest)
  define h where "h = os_socket P w (ai_family ptr) (ai_socktype ptr) (ai_protocol ptr)"
  define e1 where "e1 = Ev_socket (ai_family ptr) (ai_socktype ptr) (ai_protocol ptr) h"
  define cr where "cr = os_connect P (w @ [e1]) h (ai_addr ptr) (ai_addrlen ptr)"
  define e2 where "e2 = Ev_connect h (ai_addr ptr) (ai_addrlen ptr) cr"
  have step: "connect_loop P (ptr # rest) invalid_socket w =
      (if h = invalid_socket then connect_loop P rest invalid_socket (w @ [e1])
       else if cr = 0 then (h, w @ [e1, e2])
       else connect_loop P rest invalid_socket (w @ [e1, e2, Ev_close h]))"
    by (simp add: Let_def h_def e1_def cr_def e2_def close_socket_def)
  have g1: "genuine P w (e1 # t) = genuine P (w @ [e1]) t" for t
    by (simp add: e1_def h_def)
  have g2: "genuine P (w @ [e1]) (e2 # t) = genuine P (w @ [e1, e2]) t" for t
    by (simp add: e2_def cr_def)
  note connect_loop.simps [simp del]
  show ?case
  proof (cases "h = invalid_socket")
    case True
    from Cons.IH [of "w @ [e1]"] obtain adopted t
      where "connect_loop P rest invalid_socket (w @ [e1]) = (adopted, (w @ [e1]) @ t)"
        and "follows_policy rest t adopted" and "genuine P (w @ [e1]) t"
      by blast
    with True have "connect_loop P (ptr # rest) invalid_socket w = (adopted, w @ (e1 # t))
        \<and> follows_policy (ptr # rest) (e1 # t) adopted \<and> genuine P w (e1 # t)"
      by (simp add: step g1) (simp add: e1_def)
    then show ?thesis by blast
  next
    case False
    show ?thesis
    proof (cases "cr = 0")
      case True
      with False have "connect_loop P (ptr # rest) invalid_socket w = (h, w @ [e1, e2])
          \<and> follows_policy (ptr # rest) [e1, e2] h \<and> genuine P w [e1, e2]"
        by (simp add: step g1 g2) (simp add: e1_def e2_def)
      then show ?thesis by blast
    next
      case refused: False
      from Cons.IH [of "w @ [e1, e2, Ev_close h]"] obtain adopted t
        where "connect_loop P rest invalid_socket (w @ [e1, e2, Ev_close h])
                 = (adopted, (w @ [e1, e2, Ev_close h]) @ t)"
          and "follows_policy rest t adopted" and "genuine P (w @ [e1, e2, Ev_close h]) t"
        by blast
      with False refused
      have "connect_loop P (ptr # rest) invalid_socket w
              = (adopted, w @ (e1 # e2 # Ev_close h # t))
            \<and> follows_policy (ptr # rest) (e1 # e2 # Ev_close h # t) adopted
            \<and> genuine P w (e1 # e2 # Ev_close h # t)"
        by (simp add: step g1 g2) (simp add: e1_def e2_def)
      then show ?thesis by blast
    qed
  qed
qed

text \<open>
  C5. For every platform and every list of candidates, the system calls the loop of
  \<^verbatim>\<open>connect\<close> makes follow the attempt policy and carry the platform's own answers:
  candidates in the resolver's order, for each a socket of its family, type and protocol
  and a connect to its address, an immediate stop with that socket adopted at the first
  connect answered 0, and the close of a failed candidate's socket before the next
  candidate (a candidate whose socket was not created has none to close). When no socket
  is adopted, a socket was asked for once per candidate and no connect was accepted.
  \<^verbatim>\<open>connect\<close> itself, called with a host that is not empty and resolves to a list that
  is not empty, runs this loop on the resolved list between the name resolution and
  \<^verbatim>\<open>freeaddrinfo\<close>; it returns with the adopted socket in the object when there is one,
  and throws the ``connect failed'' error, with the platform's error code, exactly when
  there is none, that is, after every candidate has failed.
\<close>

theorem connect_attempt_policy:
  "(\<exists>adopted t.
       connect_loop P results invalid_socket w = (adopted, w @ t)
     \<and> follows_policy results t adopted
     \<and> genuine P w t
     \<and> (adopted = invalid_socket \<longrightarrow>
           socket_calls t = List.length results \<and> (\<forall>e \<in> set t. \<not> accepted e)))
   \<and> (host \<noteq> [] \<longrightarrow>
        os_getaddrinfo P (snd (close c w)) host (to_string (unat port)) hints = (0, cands) \<longrightarrow>
        cands \<noteq> [] \<longrightarrow>
        (\<exists>adopted t.
            connect_loop P cands invalid_socket
              (snd (close c w) @ [Ev_getaddrinfo host (to_string (unat port)) hints 0 cands])
              = (adopted,
                 (snd (close c w) @ [Ev_getaddrinfo host (to_string (unat port)) hints 0 cands])
                   @ t)
          \<and> follows_policy cands t adopted
          \<and> genuine P
               (snd (close c w) @ [Ev_getaddrinfo host (to_string (unat port)) hints 0 cands]) t
          \<and> connect P host port c w =
               (if adopted = invalid_socket
                then Inl (runtime_error ''connect failed: ''
                       (strerror (os_errno P
                          (snd (close c w)
                             @ Ev_getaddrinfo host (to_string (unat port)) hints 0 cands # t
                             @ [Ev_freeaddrinfo cands]))))
                else Inr (),
                if adopted = invalid_socket then reset_socket c
                else \<lparr>socket_m = adopted, connected_m = True\<rparr>,
                snd (close c w)
                  @ Ev_getaddrinfo host (to_string (unat port)) hints 0 cands # t
                  @ [Ev_freeaddrinfo cands])))"
proof -
  have loop: "\<exists>adopted t.
       connect_loop P results invalid_socket w = (adopted, w @ t)
     \<and> follows_policy results t adopted
     \<and> genuine P w t
     \<and> (adopted = invalid_socket \<longrightarrow>
           socket_calls t = List.length results \<and> (\<forall>e \<in> set t. \<not> accepted e))"
  proof -
    from connect_loop_follows [of P results w] obtain adopted t
      where t: "connect_loop P results invalid_socket w = (adopted, w @ t)"
        "follows_policy results t adopted" "genuine P w t"
      by blast
    from t(2) policy_exhausted [of results t]
    have "adopted = invalid_socket \<longrightarrow>
            socket_calls t = List.length results \<and> (\<forall>e \<in> set t. \<not> accepted e)"
      by blast
    with t show ?thesis by blast
  qed
  have whole: "\<exists>adopted t.
            connect_loop P cands invalid_socket
              (snd (close c w) @ [Ev_getaddrinfo host (to_string (unat port)) hints 0 cands])
              = (adopted,
                 (snd (close c w) @ [Ev_getaddrinfo host (to_string (unat port)) hints 0 cands])
                   @ t)
          \<and> follows_policy cands t adopted
          \<and> genuine P
               (snd (close c w) @ [Ev_getaddrinfo host (to_string (unat port)) hints 0 cands]) t
          \<and> connect P host port c w =
               (if adopted = invalid_socket
                then Inl (runtime_error ''connect failed: ''
                       (strerror (os_errno P
                          (snd (close c w)
                             @ Ev_getaddrinfo host (to_string (unat port)) hints 0 cands # t
                             @ [Ev_freeaddrinfo cands]))))
                else Inr (),
                if adopted = invalid_socket then reset_socket c
                else \<lparr>socket_m = adopted, connected_m = True\<rparr>,
                snd (close c w)
                  @ Ev_getaddrinfo host (to_string (unat port)) hints 0 cands # t
                  @ [Ev_freeaddrinfo cands])"
    if host: "host \<noteq> []"
      and res: "os_getaddrinfo P (snd (close c w)) host (to_string (unat port)) hints = (0, cands)"
      and cands: "cands \<noteq> []"
  proof -
    define w1 where "w1 = snd (close c w)"
    define w3 where "w3 = w1 @ [Ev_getaddrinfo host (to_string (unat port)) hints 0 cands]"
    from connect_loop_follows [of P cands w3] obtain adopted t
      where lp: "connect_loop P cands invalid_socket w3 = (adopted, w3 @ t)"
        and pol: "follows_policy cands t adopted" and gen: "genuine P w3 t"
      by blast
    have cl: "close c w = (reset_socket c, w1)"
      by (simp add: close_def w1_def Let_def)
    have "connect P host port c w =
               (if adopted = invalid_socket
                then Inl (runtime_error ''connect failed: ''
                       (strerror (os_errno P (w3 @ t @ [Ev_freeaddrinfo cands]))))
                else Inr (),
                if adopted = invalid_socket then reset_socket c
                else \<lparr>socket_m = adopted, connected_m = True\<rparr>,
                w3 @ t @ [Ev_freeaddrinfo cands])"
      using host cands cl res [folded w1_def] lp [unfolded w3_def]
      by (simp add: connect_def initialize_platform_def w3_def Let_def reset_socket_def
          format_network_error_def last_socket_error_def)
    with lp pol gen show ?thesis
      by (auto simp: w3_def w1_def)
  qed
  from loop whole show ?thesis by blast
qed

text \<open>
  On the scripted platform \<^verbatim>\<open>localhost\<close> resolves to two candidates; the first is refused
  and its socket closed, the second is accepted and adopted.
\<close>

theorem connect_attempt_policy_witness:
  "''localhost'' \<noteq> []
   \<and> os_getaddrinfo scripted_platform (snd (close (holding 9) [])) ''localhost''
        (to_string (unat (7 :: uint16_t))) hints = (0, [loopback6, loopback4])
   \<and> [loopback6, loopback4] \<noteq> []
   \<and> connect scripted_platform ''localhost'' 7 (holding 9) [] =
        (Inr (), holding 5,
         [Ev_close 9,
          Ev_getaddrinfo ''localhost'' ''7'' hints 0 [loopback6, loopback4],
          Ev_socket 10 1 6 4, Ev_connect 4 ''[::1]:7'' 28 (- 1), Ev_close 4,
          Ev_socket 2 1 6 5, Ev_connect 5 ''127.0.0.1:7'' 16 0,
          Ev_freeaddrinfo [loopback6, loopback4]])
   \<and> (\<exists>adopted t.
         connect_loop scripted_platform [loopback6, loopback4] invalid_socket
           (snd (close (holding 9) [])
              @ [Ev_getaddrinfo ''localhost'' (to_string (unat (7 :: uint16_t))) hints 0
                   [loopback6, loopback4]])
           = (adopted,
              (snd (close (holding 9) [])
                 @ [Ev_getaddrinfo ''localhost'' (to_string (unat (7 :: uint16_t))) hints 0
                      [loopback6, loopback4]]) @ t)
       \<and> follows_policy [loopback6, loopback4] t adopted)
   \<and> follows_policy [loopback6, loopback4]
        [Ev_socket 10 1 6 4, Ev_connect 4 ''[::1]:7'' 28 (- 1), Ev_close 4,
         Ev_socket 2 1 6 5, Ev_connect 5 ''127.0.0.1:7'' 16 0] 5"
proof -
  have h1: "''localhost'' \<noteq> []" by simp
  have h2: "os_getaddrinfo scripted_platform (snd (close (holding 9) [])) ''localhost''
        (to_string (unat (7 :: uint16_t))) hints = (0, [loopback6, loopback4])"
    by (simp add: scripted_platform_def)
  have h3: "[loopback6, loopback4] \<noteq> []" by simp
  have run: "connect scripted_platform ''localhost'' 7 (holding 9) [] =
        (Inr (), holding 5,
         [Ev_close 9,
          Ev_getaddrinfo ''localhost'' ''7'' hints 0 [loopback6, loopback4],
          Ev_socket 10 1 6 4, Ev_connect 4 ''[::1]:7'' 28 (- 1), Ev_close 4,
          Ev_socket 2 1 6 5, Ev_connect 5 ''127.0.0.1:7'' 16 0,
          Ev_freeaddrinfo [loopback6, loopback4]])"
    by code_simp
  have shape: "follows_policy [loopback6, loopback4]
        [Ev_socket 10 1 6 4, Ev_connect 4 ''[::1]:7'' 28 (- 1), Ev_close 4,
         Ev_socket 2 1 6 5, Ev_connect 5 ''127.0.0.1:7'' 16 0] 5"
    by (simp add: loopback6_def loopback4_def invalid_socket_def)
  from connect_attempt_policy [of scripted_platform "[]" "[]" "''localhost''" "holding 9" 7
      "[loopback6, loopback4]"] h1 h2 h3
  have "\<exists>adopted t.
         connect_loop scripted_platform [loopback6, loopback4] invalid_socket
           (snd (close (holding 9) [])
              @ [Ev_getaddrinfo ''localhost'' (to_string (unat (7 :: uint16_t))) hints 0
                   [loopback6, loopback4]])
           = (adopted,
              (snd (close (holding 9) [])
                 @ [Ev_getaddrinfo ''localhost'' (to_string (unat (7 :: uint16_t))) hints 0
                      [loopback6, loopback4]]) @ t)
       \<and> follows_policy [loopback6, loopback4] t adopted"
    by blast
  with h1 h2 h3 run shape show ?thesis by blast
qed

end
